theory Spec2Isabelle
  imports Complex_Main "HOL-Library.Word" "HOL-Library.Monad_Syntax"
begin

section \<open>Values of the Go types used by package awc\<close>

subsection \<open>float32\<close>

text \<open>
  A \<open>float32\<close> is a NaN, an infinity, negative zero, or a finite number (\<open>Fin 0\<close> is
  positive zero). The package never does arithmetic on its floats: it compares them
  (\<open><=\<close>, \<open>>=\<close>, \<open>==\<close>), takes \<open>math.Abs\<close> and prints them with \<open>%f\<close>. Finite values
  are kept as rationals; the values a float32 can hold are a subset of these, and the
  constants of the code (0, 1, 90, 180, 500 and their negatives) are among them.
\<close>

datatype float32 = NaN | PosInf | NegInf | NegZero | Fin rat

fun f32_val :: "float32 \<Rightarrow> rat" where
  "f32_val (Fin r) = r"
| "f32_val _ = 0"

definition is_finite :: "float32 \<Rightarrow> bool" where
  "is_finite a = (case a of NegZero \<Rightarrow> True | Fin r \<Rightarrow> True | _ \<Rightarrow> False)"

text \<open>Go's \<open>a <= b\<close>: false as soon as one side is a NaN.\<close>

definition f32_le :: "float32 \<Rightarrow> float32 \<Rightarrow> bool" where
  "f32_le a b =
     (if a = NaN \<or> b = NaN then False
      else if a = NegInf then True
      else if a = PosInf then b = PosInf
      else if b = NegInf then False
      else if b = PosInf then True
      else f32_val a \<le> f32_val b)"

text \<open>Go's \<open>a >= b\<close>.\<close>

definition f32_ge :: "float32 \<Rightarrow> float32 \<Rightarrow> bool" where
  "f32_ge a b = f32_le b a"

text \<open>Go's \<open>a == b\<close>: a NaN equals nothing, the two zeros are equal.\<close>

definition f32_eq :: "float32 \<Rightarrow> float32 \<Rightarrow> bool" where
  "f32_eq a b =
     (if a = NaN \<or> b = NaN then False
      else if is_finite a \<and> is_finite b then f32_val a = f32_val b
      else a = b)"

text \<open>Go's unary minus flips the sign bit.\<close>

definition f32_neg :: "float32 \<Rightarrow> float32" where
  "f32_neg a =
     (case a of
        NaN \<Rightarrow> NaN
      | PosInf \<Rightarrow> NegInf
      | NegInf \<Rightarrow> PosInf
      | NegZero \<Rightarrow> Fin 0
      | Fin r \<Rightarrow> (if r = 0 then NegZero else Fin (- r)))"

text \<open>
  \<open>float32(math.Abs(float64(value)))\<close>: both conversions are exact, and \<open>math.Abs\<close>
  clears the sign bit.
\<close>

definition f32_abs :: "float32 \<Rightarrow> float32" where
  "f32_abs a =
     (case a of
        NaN \<Rightarrow> NaN
      | PosInf \<Rightarrow> PosInf
      | NegInf \<Rightarrow> PosInf
      | NegZero \<Rightarrow> Fin 0
      | Fin r \<Rightarrow> Fin \<bar>r\<bar>)"

text \<open>The value lies in the closed interval from \<open>lo\<close> to \<open>hi\<close>.\<close>

definition f32_between :: "float32 \<Rightarrow> float32 \<Rightarrow> float32 \<Rightarrow> bool" where
  "f32_between lo hi a = (f32_le lo a \<and> f32_le a hi)"

subsection \<open>math.go\<close>

definition keepFloatInRange :: "float32 \<Rightarrow> float32 \<Rightarrow> float32 \<Rightarrow> float32" where
  "keepFloatInRange val mn mx =
     (if f32_le val mn then mn
      else if f32_ge val mx then mx
      else val)"

subsection \<open>time.Time\<close>

text \<open>
  The only thing the package asks of a \<open>time.Time\<close> is \<open>Unix()\<close>, its seconds since the
  epoch as an int64.
\<close>

datatype Time = Time (Unix: "64 word")

section \<open>metar.go: the query builder\<close>

text \<open>
  A pointer field is \<open>None\<close> when nil. Every setter stores the address of its own
  parameter or local, so no two fields share a target and the pointee is the value.
  The slice \<open>fields\<close> (here \<open>fields'\<close>) is a list (nil and empty are both \<open>[]\<close>; the code only asks for
  its length and joins it).
\<close>

record METARQuery =
  station :: "string option"
  startTime :: "64 word option"
  endTime :: "64 word option"
  hoursBeforeNow :: "float32 option"
  mostRecent :: "bool option"
  mostRecentForEachStation :: "string option"
  rectMinLat :: "float32 option"
  rectMinLon :: "float32 option"
  rectMaxLat :: "float32 option"
  rectMaxLon :: "float32 option"
  radRadius :: "float32 option"
  radLat :: "float32 option"
  radLon :: "float32 option"
  fields' :: "string list"

text \<open>\<open>new(awc.METARQuery)\<close>: the zero value.\<close>

definition new_METARQuery :: METARQuery where
  "new_METARQuery =
     \<lparr> station = None, startTime = None, endTime = None, hoursBeforeNow = None,
       mostRecent = None, mostRecentForEachStation = None,
       rectMinLat = None, rectMinLon = None, rectMaxLat = None, rectMaxLon = None,
       radRadius = None, radLat = None, radLon = None, fields' = [] \<rparr>"

definition Station :: "string \<Rightarrow> METARQuery \<Rightarrow> METARQuery" where
  "Station v query = query\<lparr>station := Some v\<rparr>"

definition Between :: "Time \<Rightarrow> Time \<Rightarrow> METARQuery \<Rightarrow> METARQuery" where
  "Between start end query =
     (let startUnix = Unix start;
          endUnix = Unix end
      in query\<lparr>startTime := Some startUnix, endTime := Some endUnix,
                hoursBeforeNow := None\<rparr>)"

definition HoursBeforeNow :: "float32 \<Rightarrow> METARQuery \<Rightarrow> METARQuery" where
  "HoursBeforeNow v query =
     (let v = f32_abs v
      in query\<lparr>hoursBeforeNow := Some v, startTime := None, endTime := None\<rparr>)"

definition MostRecent :: "bool \<Rightarrow> METARQuery \<Rightarrow> METARQuery" where
  "MostRecent v query = query\<lparr>mostRecent := Some v, mostRecentForEachStation := None\<rparr>"

definition MostRecentForEachStation :: "string \<Rightarrow> METARQuery \<Rightarrow> METARQuery" where
  "MostRecentForEachStation v query =
     query\<lparr>mostRecentForEachStation := Some v, mostRecent := None\<rparr>"

definition InRectangle ::
  "float32 \<Rightarrow> float32 \<Rightarrow> float32 \<Rightarrow> float32 \<Rightarrow> METARQuery \<Rightarrow> METARQuery" where
  "InRectangle minLat minLon maxLat maxLon query =
     (let minLat = keepFloatInRange minLat (Fin (- 90)) (Fin 90);
          minLon = keepFloatInRange minLon (Fin (- 180)) (Fin 180);
          maxLat = keepFloatInRange maxLat (Fin (- 90)) (Fin 90);
          maxLon = keepFloatInRange maxLon (Fin (- 180)) (Fin 180)
      in query\<lparr>rectMinLat := Some minLat, rectMinLon := Some minLon,
                rectMaxLat := Some maxLat, rectMaxLon := Some maxLon,
                radRadius := None, radLat := None, radLon := None\<rparr>)"

definition RadialDistance ::
  "float32 \<Rightarrow> float32 \<Rightarrow> float32 \<Rightarrow> METARQuery \<Rightarrow> METARQuery" where
  "RadialDistance radius lat lon query =
     (let radius = keepFloatInRange radius (Fin 0) (Fin 500);
          radius = (if f32_eq radius (Fin 0) then Fin 1 else radius);
          lat = keepFloatInRange lat (Fin (- 90)) (Fin 90);
          lon = keepFloatInRange lon (Fin (- 180)) (Fin 180)
      in query\<lparr>radRadius := Some radius, radLat := Some lat, radLon := Some lon,
                rectMinLat := None, rectMinLon := None,
                rectMaxLat := None, rectMaxLon := None\<rparr>)"

definition Fields :: "string list \<Rightarrow> METARQuery \<Rightarrow> METARQuery" where
  "Fields values query = query\<lparr>fields' := values\<rparr>"

section \<open>Printing with fmt.Sprintf\<close>

text \<open>A Go string is a sequence of bytes, as \<open>string\<close> is here.\<close>

definition digit_char :: "nat \<Rightarrow> char" where
  "digit_char n = ''0123456789'' ! (n mod 10)"

fun dec_nat :: "nat \<Rightarrow> string" where
  "dec_nat n = (if n < 10 then [digit_char n] else dec_nat (n div 10) @ [digit_char n])"

declare dec_nat.simps [simp del]

text \<open>The verb \<open>%d\<close>: decimal digits, a minus sign in front of a negative number.\<close>

definition fmt_d :: "int \<Rightarrow> string" where
  "fmt_d i = (if i < 0 then ''-'' @ dec_nat (nat (- i)) else dec_nat (nat i))"

text \<open>The verb \<open>%t\<close>.\<close>

definition fmt_t :: "bool \<Rightarrow> string" where
  "fmt_t b = (if b then ''true'' else ''false'')"

text \<open>
  The verb \<open>%f\<close> on a float32: the exact decimal expansion of the value, rounded to six
  digits after the point, a tie going to the even digit (strconv's \<open>bigFtoa\<close> followed by
  \<open>decimal.Round\<close>); the sign bit prints as a minus sign also when the digits are all
  zero; \<open>NaN\<close>, \<open>+Inf\<close> and \<open>-Inf\<close> print as words.
\<close>

definition round_half_even :: "rat \<Rightarrow> int" where
  "round_half_even x =
     (let f = \<lfloor>x\<rfloor>; d = x - of_int f
      in if d < 1 / 2 then f
         else if 1 / 2 < d then f + 1
         else if even f then f else f + 1)"

text \<open>The six digits after the point, zeros in front.\<close>

definition frac6 :: "nat \<Rightarrow> string" where
  "frac6 m =
     map digit_char [m div 100000, m div 10000, m div 1000, m div 100, m div 10, m]"

definition fixed6 :: "nat \<Rightarrow> string" where
  "fixed6 n = dec_nat (n div 1000000) @ ''.'' @ frac6 (n mod 1000000)"

definition fmt_f :: "float32 \<Rightarrow> string" where
  "fmt_f a =
     (case a of
        NaN \<Rightarrow> ''NaN''
      | PosInf \<Rightarrow> ''+Inf''
      | NegInf \<Rightarrow> ''-Inf''
      | NegZero \<Rightarrow> ''-0.000000''
      | Fin r \<Rightarrow>
          (if r < 0 then ''-'' else []) @ fixed6 (nat (round_half_even (\<bar>r\<bar> * 1000000))))"

text \<open>\<open>strings.Join\<close>.\<close>

fun Join :: "string list \<Rightarrow> string \<Rightarrow> string" where
  "Join [] sep = []"
| "Join [x] sep = x"
| "Join (x # xs) sep = x @ sep @ Join xs sep"

section \<open>The endpoint string\<close>

type_synonym endpoint = string

definition endpointMETAR :: endpoint where
  "endpointMETAR =
     ''https://aviationweather.gov/adds/dataserver_current/httpparam?dataSource=metars&requestType=retrieve&format=xml''"

definition addString :: "endpoint \<Rightarrow> string \<Rightarrow> string \<Rightarrow> endpoint" where
  "addString end key v = end @ ''&'' @ key @ ''='' @ v"

definition addBool :: "endpoint \<Rightarrow> string \<Rightarrow> bool \<Rightarrow> endpoint" where
  "addBool end key v = end @ ''&'' @ key @ ''='' @ fmt_t v"

definition addInt :: "endpoint \<Rightarrow> string \<Rightarrow> 64 word \<Rightarrow> endpoint" where
  "addInt end key v = end @ ''&'' @ key @ ''='' @ fmt_d (sint v)"

definition addFloat :: "endpoint \<Rightarrow> string \<Rightarrow> float32 \<Rightarrow> endpoint" where
  "addFloat end key v = end @ ''&'' @ key @ ''='' @ fmt_f v"

text \<open>
  \<open>buildEndpoint\<close> tests one pointer of a group and then reads the others. Reading
  through a nil pointer panics: the result is \<open>None\<close> then, and \<open>Some\<close> of the endpoint
  otherwise. \<open>deref\<close> is the read \<open>*p\<close>.
\<close>

definition deref :: "'a option \<Rightarrow> 'a option" where
  "deref p = p"

definition buildEndpoint :: "METARQuery \<Rightarrow> endpoint option" where
  "buildEndpoint query = do {
     let end = endpointMETAR;
     end \<leftarrow> (if station query \<noteq> None
             then do { s \<leftarrow> deref (station query);
                       Some (addString end ''stationString'' s) }
             else Some end);
     end \<leftarrow> (if startTime query \<noteq> None
             then do { s \<leftarrow> deref (startTime query);
                       e \<leftarrow> deref (endTime query);
                       Some (addInt (addInt end ''startTime'' s) ''endTime'' e) }
             else Some end);
     end \<leftarrow> (if hoursBeforeNow query \<noteq> None
             then do { h \<leftarrow> deref (hoursBeforeNow query);
                       Some (addFloat end ''hoursBeforeNow'' h) }
             else Some end);
     end \<leftarrow> (if mostRecent query \<noteq> None
             then do { b \<leftarrow> deref (mostRecent query);
                       Some (addBool end ''mostRecent'' b) }
             else Some end);
     end \<leftarrow> (if mostRecentForEachStation query \<noteq> None
             then do { s \<leftarrow> deref (mostRecentForEachStation query);
                       Some (addString end ''mostRecentForEachStation'' s) }
             else Some end);
     end \<leftarrow> (if rectMinLat query \<noteq> None
             then do { a \<leftarrow> deref (rectMinLat query);
                       b \<leftarrow> deref (rectMinLon query);
                       c \<leftarrow> deref (rectMaxLat query);
                       d \<leftarrow> deref (rectMaxLon query);
                       Some (addFloat (addFloat (addFloat (addFloat end
                               ''minLat'' a) ''minLon'' b) ''maxLat'' c) ''maxLon'' d) }
             else Some end);
     end \<leftarrow> (if radRadius query \<noteq> None
             then do { r \<leftarrow> deref (radRadius query);
                       lo \<leftarrow> deref (radLon query);
                       la \<leftarrow> deref (radLat query);
                       Some (addString end ''radialDistance''
                               (fmt_f r @ '';'' @ fmt_f lo @ '','' @ fmt_f la)) }
             else Some end);
     end \<leftarrow> (if length (fields' query) > 0
             then Some (addString end ''fields'' (Join (fields' query) '',''))
             else Some end);
     Some end
   }"

section \<open>metar.go: the response\<close>

text \<open>
  The structs that \<open>xml.Unmarshal\<close> fills. Go's \<open>int\<close> is kept as \<open>int\<close>; the package
  does no arithmetic on these fields.
\<close>

record METARQualityControlFlags =
  Corrected :: bool
  Auto :: bool
  AutoStation :: bool
  MaintenanceIndicator :: bool
  NoSignal :: bool
  LightningSensorOff :: bool
  FreezingRainSensorOff :: bool
  PresentWeatherSensorOff :: bool

record METARSkyCondition =
  SkyCover :: string
  CloudBaseFTAGL :: int

record METAR =
  RawText :: string
  StationID :: string
  ObservationTime :: string
  Latitude :: float32
  Longitude :: float32
  AirTempC :: float32
  DewPointC :: float32
  WindDirDegrees :: int
  WindSpeedKT :: int
  WindGustKT :: int
  VisibilityStatuteMI :: float32
  AltimeterInHG :: float32
  SeaLevelPressureMB :: float32
  QualityControlFlags :: METARQualityControlFlags
  WXString :: string
  SkyConditions :: "METARSkyCondition list"
  FlightCategory :: string
  ThreeHRPressureTendencyMB :: float32
  MaxAirTemp6HC :: float32
  MinAirTemp6HC :: float32
  MaxAirTemp24HC :: float32
  MinAirTemp24HC :: float32
  PrecipitationIN :: float32
  Precipitation3HIN :: float32
  Precipitation6HIN :: float32
  Precipitation24HIN :: float32
  SnowDepthIN :: float32
  VerticalVisibilityFT :: int
  METARType :: string
  ElevationM :: float32

text \<open>\<open>xml.Name\<close> is a namespace and a local name.\<close>

record METARResponse =
  XMLName :: "string \<times> string"
  Errors :: "string list"
  Warnings :: "string list"
  METARs :: "METAR list"

text \<open>\<open>new(METARResponse)\<close>: the zero value handed to the decoder.\<close>

definition new_METARResponse :: METARResponse where
  "new_METARResponse = \<lparr> XMLName = ([], []), Errors = [], Warnings = [], METARs = [] \<rparr>"


section \<open>metar.go: GetMETAR\<close>

text \<open>
  A Go \<open>error\<close>. \<open>ErrorsNew\<close> is the value of \<open>errors.New\<close>, with its message. The other
  three are the errors that the standard library hands to \<open>GetMETAR\<close>, which passes them
  on untouched; each carries its message and is named after the call it comes from:
  \<open>http.Get\<close>, \<open>io.ReadAll\<close>, \<open>xml.Unmarshal\<close>.
\<close>

datatype error = ErrorsNew string | TransportError string | ReadError string | DecodeError string

text \<open>
  What \<open>GetMETAR\<close> reads of an \<open>http.Response\<close>: the status code, and the body, given as
  what \<open>io.ReadAll\<close> returns on it (the bytes read, and the error if reading failed).
\<close>

record http_Response =
  StatusCode :: int
  Body :: "string \<times> string option"

text \<open>
  The network and the XML decoder are outside the package, so they are parameters:
  \<open>http_Get url\<close> is what \<open>http.Get\<close> returns (the message of its error, or the
  response), \<open>xml_Unmarshal body v\<close> is what \<open>xml.Unmarshal\<close> makes of the struct \<open>v\<close>
  it was given, with the message of the error it returns, if any.
\<close>

type_synonym http_Get = "string \<Rightarrow> string + http_Response"

type_synonym xml_Unmarshal = "string \<Rightarrow> METARResponse \<Rightarrow> METARResponse \<times> string option"

text \<open>What the function does to the outside, in order.\<close>

datatype event = HttpGet string | ReadAll | Unmarshal string | BodyClose

text \<open>
  The Go result \<open>(*METARResponse, error)\<close> is a pair of two optional values, with the
  trace of events beside it. The whole is \<open>None\<close> when \<open>buildEndpoint\<close> panics. The
  deferred \<open>Body.Close\<close> runs when the function returns, on the paths that reached the
  \<open>defer\<close> statement.
\<close>

definition GetMETAR ::
  "http_Get \<Rightarrow> xml_Unmarshal \<Rightarrow> METARQuery
     \<Rightarrow> ((METARResponse option \<times> error option) \<times> event list) option" where
  "GetMETAR http_Get xml_Unmarshal query =
     (case buildEndpoint query of
        None \<Rightarrow> None
      | Some url \<Rightarrow>
          Some
            (case http_Get url of
               Inl err \<Rightarrow> ((None, Some (TransportError err)), [HttpGet url])
             | Inr httpResponse \<Rightarrow>
                 if StatusCode httpResponse < 200 \<or> StatusCode httpResponse > 299
                 then ((None,
                        Some (ErrorsNew (''unexpected status code: ''
                                @ fmt_d (StatusCode httpResponse)))),
                       [HttpGet url])
                 else
                   (case Body httpResponse of
                      (body, Some err) \<Rightarrow>
                        ((None, Some (ReadError err)), [HttpGet url, ReadAll, BodyClose])
                    | (body, None) \<Rightarrow>
                        (case xml_Unmarshal body new_METARResponse of
                           (response, Some err) \<Rightarrow>
                             ((None, Some (DecodeError err)),
                              [HttpGet url, ReadAll, Unmarshal body, BodyClose])
                         | (response, None) \<Rightarrow>
                             ((Some response, None),
                              [HttpGet url, ReadAll, Unmarshal body, BodyClose])))))"

section \<open>What buildEndpoint returns\<close>

text \<open>
  The text that each group of fields adds to the endpoint, and the one way the function
  can panic: a group whose first pointer is set while a later one is nil.
\<close>

definition seg_station :: "METARQuery \<Rightarrow> string" where
  "seg_station q = (case station q of None \<Rightarrow> [] | Some s \<Rightarrow> ''&stationString='' @ s)"

definition seg_time :: "METARQuery \<Rightarrow> string" where
  "seg_time q =
     (case startTime q of None \<Rightarrow> []
      | Some s \<Rightarrow> (case endTime q of None \<Rightarrow> []
          | Some e \<Rightarrow> ''&startTime='' @ fmt_d (sint s) @ ''&endTime='' @ fmt_d (sint e)))"

definition seg_hours :: "METARQuery \<Rightarrow> string" where
  "seg_hours q = (case hoursBeforeNow q of None \<Rightarrow> [] | Some h \<Rightarrow> ''&hoursBeforeNow='' @ fmt_f h)"

definition seg_recent :: "METARQuery \<Rightarrow> string" where
  "seg_recent q = (case mostRecent q of None \<Rightarrow> [] | Some b \<Rightarrow> ''&mostRecent='' @ fmt_t b)"

definition seg_each :: "METARQuery \<Rightarrow> string" where
  "seg_each q =
     (case mostRecentForEachStation q of None \<Rightarrow> []
      | Some s \<Rightarrow> ''&mostRecentForEachStation='' @ s)"

definition seg_rect :: "METARQuery \<Rightarrow> string" where
  "seg_rect q =
     (case (rectMinLat q, rectMinLon q, rectMaxLat q, rectMaxLon q) of
        (Some a, Some b, Some c, Some d) \<Rightarrow>
          ''&minLat='' @ fmt_f a @ ''&minLon='' @ fmt_f b
          @ ''&maxLat='' @ fmt_f c @ ''&maxLon='' @ fmt_f d
      | _ \<Rightarrow> [])"

definition seg_radial :: "METARQuery \<Rightarrow> string" where
  "seg_radial q =
     (case (radRadius q, radLon q, radLat q) of
        (Some r, Some lo, Some la) \<Rightarrow>
          ''&radialDistance='' @ fmt_f r @ '';'' @ fmt_f lo @ '','' @ fmt_f la
      | _ \<Rightarrow> [])"

definition seg_fields :: "METARQuery \<Rightarrow> string" where
  "seg_fields q = (if fields' q = [] then [] else ''&fields='' @ Join (fields' q) '','')"

definition nil_read :: "METARQuery \<Rightarrow> bool" where
  "nil_read q =
     ((startTime q \<noteq> None \<and> endTime q = None)
      \<or> (rectMinLat q \<noteq> None
           \<and> (rectMinLon q = None \<or> rectMaxLat q = None \<or> rectMaxLon q = None))
      \<or> (radRadius q \<noteq> None \<and> (radLon q = None \<or> radLat q = None)))"

section \<open>Sequences of setter calls\<close>

text \<open>
  The fields of \<open>METARQuery\<close> are unexported: outside the package a query is the zero
  value changed by calls of the setters, which return the query so that calls chain.
\<close>

datatype call =
    CallStation string
  | CallBetween Time Time
  | CallHoursBeforeNow float32
  | CallMostRecent bool
  | CallMostRecentForEachStation string
  | CallInRectangle float32 float32 float32 float32
  | CallRadialDistance float32 float32 float32
  | CallFields "string list"

fun apply_call :: "call \<Rightarrow> METARQuery \<Rightarrow> METARQuery" where
  "apply_call (CallStation v) q = Station v q"
| "apply_call (CallBetween s e) q = Between s e q"
| "apply_call (CallHoursBeforeNow v) q = HoursBeforeNow v q"
| "apply_call (CallMostRecent v) q = MostRecent v q"
| "apply_call (CallMostRecentForEachStation v) q = MostRecentForEachStation v q"
| "apply_call (CallInRectangle a b c d) q = InRectangle a b c d q"
| "apply_call (CallRadialDistance r la lo) q = RadialDistance r la lo q"
| "apply_call (CallFields vs) q = Fields vs q"

text \<open>The calls are made from left to right.\<close>

fun run_calls :: "call list \<Rightarrow> METARQuery \<Rightarrow> METARQuery" where
  "run_calls [] q = q"
| "run_calls (c # cs) q = run_calls cs (apply_call c q)"

text \<open>The query built by a chain of calls on \<open>new(METARQuery)\<close>.\<close>

definition built :: "call list \<Rightarrow> METARQuery" where
  "built cs = run_calls cs new_METARQuery"

text \<open>
  At most one member of each group is set: the time span or the hours, the flag or the
  per-station selector, the rectangle or the radius.
\<close>

definition exclusive :: "METARQuery \<Rightarrow> bool" where
  "exclusive q =
     (((startTime q = None \<and> endTime q = None) \<or> hoursBeforeNow q = None)
      \<and> (mostRecent q = None \<or> mostRecentForEachStation q = None)
      \<and> ((rectMinLat q = None \<and> rectMinLon q = None
            \<and> rectMaxLat q = None \<and> rectMaxLon q = None)
           \<or> (radRadius q = None \<and> radLat q = None \<and> radLon q = None)))"

text \<open>The pointers of a group are all nil or all set.\<close>

definition paired :: "METARQuery \<Rightarrow> bool" where
  "paired q =
     ((startTime q = None) = (endTime q = None)
      \<and> (rectMinLat q = None) = (rectMinLon q = None)
      \<and> (rectMinLat q = None) = (rectMaxLat q = None)
      \<and> (rectMinLat q = None) = (rectMaxLon q = None)
      \<and> (radRadius q = None) = (radLat q = None)
      \<and> (radRadius q = None) = (radLon q = None))"

text \<open>How many times the text \<open>p\<close> occurs in a string.\<close>

fun occurrences :: "string \<Rightarrow> string \<Rightarrow> nat" where
  "occurrences p [] = (if p = [] then 1 else 0)"
| "occurrences p (c # cs) = (if take (length p) (c # cs) = p then 1 else 0) + occurrences p cs"

section \<open>Properties of the rendering\<close>

text \<open>
  Each \<open>if\<close> block of \<open>buildEndpoint\<close> either appends the text of its group or, for a
  group of several pointers, panics when a later pointer of the group is nil.
\<close>

lemma step_station:
  "(if station q \<noteq> None
    then do { s \<leftarrow> deref (station q); Some (addString e ''stationString'' s) }
    else Some e) = Some (e @ seg_station q)"
  by (cases "station q") (simp_all add: seg_station_def deref_def addString_def)

lemma step_time:
  "(if startTime q \<noteq> None
    then do { s \<leftarrow> deref (startTime q);
              e' \<leftarrow> deref (endTime q);
              Some (addInt (addInt e ''startTime'' s) ''endTime'' e') }
    else Some e)
   = (if startTime q \<noteq> None \<and> endTime q = None then None else Some (e @ seg_time q))"
  by (cases "startTime q"; cases "endTime q") (simp_all add: seg_time_def deref_def addInt_def)

lemma step_hours:
  "(if hoursBeforeNow q \<noteq> None
    then do { h \<leftarrow> deref (hoursBeforeNow q); Some (addFloat e ''hoursBeforeNow'' h) }
    else Some e) = Some (e @ seg_hours q)"
  by (cases "hoursBeforeNow q") (simp_all add: seg_hours_def deref_def addFloat_def)

lemma step_recent:
  "(if mostRecent q \<noteq> None
    then do { b \<leftarrow> deref (mostRecent q); Some (addBool e ''mostRecent'' b) }
    else Some e) = Some (e @ seg_recent q)"
  by (cases "mostRecent q") (simp_all add: seg_recent_def deref_def addBool_def)

lemma step_each:
  "(if mostRecentForEachStation q \<noteq> None
    then do { s \<leftarrow> deref (mostRecentForEachStation q);
              Some (addString e ''mostRecentForEachStation'' s) }
    else Some e) = Some (e @ seg_each q)"
  by (cases "mostRecentForEachStation q") (simp_all add: seg_each_def deref_def addString_def)

lemma step_rect:
  "(if rectMinLat q \<noteq> None
    then do { a \<leftarrow> deref (rectMinLat q);
              b \<leftarrow> deref (rectMinLon q);
              c \<leftarrow> deref (rectMaxLat q);
              d \<leftarrow> deref (rectMaxLon q);
              Some (addFloat (addFloat (addFloat (addFloat e
                      ''minLat'' a) ''minLon'' b) ''maxLat'' c) ''maxLon'' d) }
    else Some e)
   = (if rectMinLat q \<noteq> None
         \<and> (rectMinLon q = None \<or> rectMaxLat q = None \<or> rectMaxLon q = None)
      then None else Some (e @ seg_rect q))"
  by (cases "rectMinLat q"; cases "rectMinLon q"; cases "rectMaxLat q"; cases "rectMaxLon q")
     (simp_all add: seg_rect_def deref_def addFloat_def)

lemma step_radial:
  "(if radRadius q \<noteq> None
    then do { r \<leftarrow> deref (radRadius q);
              lo \<leftarrow> deref (radLon q);
              la \<leftarrow> deref (radLat q);
              Some (addString e ''radialDistance''
                      (fmt_f r @ '';'' @ fmt_f lo @ '','' @ fmt_f la)) }
    else Some e)
   = (if radRadius q \<noteq> None \<and> (radLon q = None \<or> radLat q = None)
      then None else Some (e @ seg_radial q))"
  by (cases "radRadius q"; cases "radLon q"; cases "radLat q")
     (simp_all add: seg_radial_def deref_def addString_def)

lemma step_fields:
  "(if length (fields' q) > 0
    then Some (addString e ''fields'' (Join (fields' q) '',''))
    else Some e) = Some (e @ seg_fields q)"
  by (simp add: seg_fields_def addString_def)

text \<open>
  So \<open>buildEndpoint\<close> panics exactly on a nil read, and otherwise returns the base
  endpoint followed by the text of the groups, in the order of the code.
\<close>

lemma buildEndpoint_eq:
  "buildEndpoint q =
     (if nil_read q then None
      else Some (endpointMETAR @ seg_station q @ seg_time q @ seg_hours q @ seg_recent q
                 @ seg_each q @ seg_rect q @ seg_radial q @ seg_fields q))"
  unfolding buildEndpoint_def Let_def step_station step_time step_hours step_recent
    step_each step_rect step_radial step_fields
  by (simp add: nil_read_def)

section \<open>Invariants of the builder\<close>

text \<open>
  Both invariants hold of the zero value and are kept by each setter, hence by every
  sequence of calls.
\<close>

lemmas setter_defs = Station_def Between_def HoursBeforeNow_def MostRecent_def
  MostRecentForEachStation_def InRectangle_def RadialDistance_def Fields_def

lemma exclusive_apply_call: "exclusive q \<Longrightarrow> exclusive (apply_call c q)"
  by (cases c) (auto simp: exclusive_def setter_defs Let_def)

lemma exclusive_run_calls: "exclusive q \<Longrightarrow> exclusive (run_calls cs q)"
  by (induction cs arbitrary: q) (simp_all add: exclusive_apply_call)

lemma paired_apply_call: "paired q \<Longrightarrow> paired (apply_call c q)"
  by (cases c) (auto simp: paired_def setter_defs Let_def)

lemma paired_run_calls: "paired q \<Longrightarrow> paired (run_calls cs q)"
  by (induction cs arbitrary: q) (simp_all add: paired_apply_call)

lemma paired_new: "paired new_METARQuery"
  by (simp add: paired_def new_METARQuery_def)

lemma exclusive_new: "exclusive new_METARQuery"
  by (simp add: exclusive_def new_METARQuery_def)

lemma paired_built: "paired (built cs)"
  unfolding built_def by (rule paired_run_calls [OF paired_new])

lemma paired_HoursBeforeNow: "paired q \<Longrightarrow> paired (HoursBeforeNow h q)"
  using paired_apply_call [of q "CallHoursBeforeNow h"] by simp

lemma paired_not_nil_read: "paired q \<Longrightarrow> \<not> nil_read q"
  by (auto simp: paired_def nil_read_def)

lemma buildEndpoint_paired:
  "paired q \<Longrightarrow>
   buildEndpoint q =
     Some (endpointMETAR @ seg_station q @ seg_time q @ seg_hours q @ seg_recent q
           @ seg_each q @ seg_rect q @ seg_radial q @ seg_fields q)"
  by (simp add: buildEndpoint_eq paired_not_nil_read)

text \<open>
  A query that the setters cannot build: with \<open>startTime\<close> set and \<open>endTime\<close> nil,
  \<open>buildEndpoint\<close> reads \<open>*query.endTime\<close> and panics.
\<close>

lemma buildEndpoint_nil_panics:
  "buildEndpoint (new_METARQuery\<lparr>startTime := Some 3\<rparr>) = None"
  by (simp add: buildEndpoint_eq nil_read_def new_METARQuery_def)

section \<open>Evaluation and the float comparisons\<close>

text \<open>The facts that evaluate the printing functions and the comparisons on numerals.\<close>

lemma floor_numeral_divide:
  "\<lfloor>numeral a / numeral b :: rat\<rfloor> = numeral a div numeral b"
  using floor_divide_of_int_eq [of "numeral a" "numeral b", where ?'a = rat] by simp

lemmas fmt_defs = fmt_f_def fixed6_def frac6_def round_half_even_def dec_nat.simps
  digit_char_def fmt_d_def fmt_t_def Let_def floor_numeral_divide

lemmas f32_defs = f32_le_def f32_ge_def f32_eq_def f32_abs_def f32_neg_def f32_between_def
  is_finite_def keepFloatInRange_def

lemmas seg_defs = seg_station_def seg_time_def seg_hours_def seg_recent_def seg_each_def
  seg_rect_def seg_radial_def seg_fields_def

text \<open>
  \<open>%f\<close> at work: six digits after the point, a tie to the even digit, the sign kept on
  a value that rounds to zero.
\<close>

lemma fmt_f_examples:
  "fmt_f (Fin (3 / 2)) = ''1.500000''"
  "fmt_f (Fin (1 / 128)) = ''0.007812''"
  "fmt_f (Fin (3 / 128)) = ''0.023438''"
  "fmt_f (Fin (- 1 / 100000000)) = ''-0.000000''"
  "fmt_f (Fin (19999999 / 10000000)) = ''2.000000''"
  "fmt_f (Fin (- 12345678 / 1000)) = ''-12345.678000''"
  "fmt_f NegZero = ''-0.000000''"
  "fmt_f PosInf = ''+Inf''"
  by (simp_all add: fmt_defs)

lemma fmt_d_examples:
  "fmt_d (sint (1700000000 :: 64 word)) = ''1700000000''"
  "fmt_d (sint (- 7 :: 64 word)) = ''-7''"
  "fmt_d 0 = ''0''"
  by (simp_all add: fmt_defs)

text \<open>The comparisons and the clamp.\<close>

lemma f32_abs_neg: "f32_abs (f32_neg h) = f32_abs h"
  by (cases h) (simp_all add: f32_abs_def f32_neg_def)

lemma keepFloatInRange_between:
  "v \<noteq> NaN \<Longrightarrow> a \<le> b \<Longrightarrow> f32_between (Fin a) (Fin b) (keepFloatInRange v (Fin a) (Fin b))"
  by (cases v) (auto simp: f32_defs)

lemma keepFloatInRange_NaN: "keepFloatInRange NaN (Fin a) (Fin b) = NaN"
  by (simp add: f32_defs)

lemma radius_between:
  "radius \<noteq> NaN \<Longrightarrow>
   f32_between (Fin 0) (Fin 500)
     (if f32_le radius (Fin 0) then Fin 1
      else if f32_le (Fin 500) radius then Fin 500 else radius)"
  by (cases radius) (auto simp: f32_defs)

lemma radius_stored:
  "(let r = keepFloatInRange radius (Fin 0) (Fin 500)
    in if f32_eq r (Fin 0) then Fin 1 else r)
   = (if f32_le radius (Fin 0) then Fin 1
      else if f32_le (Fin 500) radius then Fin 500 else radius)"
  by (cases radius) (auto simp: f32_defs)

lemma radius_nonzero:
  "\<not> f32_eq (if f32_le radius (Fin 0) then Fin 1
      else if f32_le (Fin 500) radius then Fin 500 else radius) (Fin 0)"
  by (cases radius) (auto simp: f32_defs)

lemma clamp_result:
  assumes "v \<noteq> NaN" and "a \<le> b" and "p = Some (keepFloatInRange v (Fin a) (Fin b))"
  shows "\<exists>w. p = Some w
       \<and> f32_between (Fin a) (Fin b) w
       \<and> w = (if f32_le v (Fin a) then Fin a else if f32_le (Fin b) v then Fin b else v)"
proof -
  have "f32_between (Fin a) (Fin b) (keepFloatInRange v (Fin a) (Fin b))"
    by (rule keepFloatInRange_between [OF assms(1,2)])
  moreover have "keepFloatInRange v (Fin a) (Fin b)
      = (if f32_le v (Fin a) then Fin a else if f32_le (Fin b) v then Fin b else v)"
    by (simp add: keepFloatInRange_def f32_ge_def)
  ultimately show ?thesis
    using assms(3) by metis
qed

lemma buildEndpoint_new: "buildEndpoint new_METARQuery = Some endpointMETAR"
  by (simp add: buildEndpoint_eq nil_read_def seg_defs new_METARQuery_def)

section \<open>The claims\<close>

text \<open>
  C1. In every query built by a sequence of setter calls, at most one member of each
  exclusive group is set. Each setter clears the other member of its group, whatever the
  query was before: \<open>Between\<close> clears \<open>hoursBeforeNow\<close>, \<open>HoursBeforeNow\<close> clears
  \<open>startTime\<close> and \<open>endTime\<close>, \<open>MostRecent\<close> and \<open>MostRecentForEachStation\<close> clear each
  other, \<open>InRectangle\<close> clears the three radial fields and \<open>RadialDistance\<close> the four
  rectangle fields.
\<close>

theorem C1_exclusive_groups:
  "exclusive (built cs)
   \<and> hoursBeforeNow (Between s e q) = None
   \<and> startTime (HoursBeforeNow h q) = None \<and> endTime (HoursBeforeNow h q) = None
   \<and> mostRecentForEachStation (MostRecent b q) = None
   \<and> mostRecent (MostRecentForEachStation v q) = None
   \<and> radRadius (InRectangle a1 a2 a3 a4 q) = None
   \<and> radLat (InRectangle a1 a2 a3 a4 q) = None
   \<and> radLon (InRectangle a1 a2 a3 a4 q) = None
   \<and> rectMinLat (RadialDistance r la lo q) = None
   \<and> rectMinLon (RadialDistance r la lo q) = None
   \<and> rectMaxLat (RadialDistance r la lo q) = None
   \<and> rectMaxLon (RadialDistance r la lo q) = None"
proof -
  have "exclusive (built cs)"
    unfolding built_def by (rule exclusive_run_calls [OF exclusive_new])
  then show ?thesis
    by (simp add: setter_defs Let_def)
qed

theorem C1_exclusive_groups_witness:
  "exclusive (built [CallHoursBeforeNow (Fin 2), CallBetween (Time 1) (Time 2),
                     CallMostRecentForEachStation ''constraint'', CallMostRecent True,
                     CallInRectangle (Fin 1) (Fin 2) (Fin 3) (Fin 4),
                     CallRadialDistance (Fin 5) (Fin 6) (Fin 7)])
   \<and> hoursBeforeNow (Between (Time 1) (Time 2) (HoursBeforeNow (Fin 2) new_METARQuery)) = None
   \<and> startTime (Between (Time 1) (Time 2) (HoursBeforeNow (Fin 2) new_METARQuery)) = Some 1"
  using C1_exclusive_groups [of "[CallHoursBeforeNow (Fin 2), CallBetween (Time 1) (Time 2),
                     CallMostRecentForEachStation ''constraint'', CallMostRecent True,
                     CallInRectangle (Fin 1) (Fin 2) (Fin 3) (Fin 4),
                     CallRadialDistance (Fin 5) (Fin 6) (Fin 7)]"
      "Time 1" "Time 2" "HoursBeforeNow (Fin 2) new_METARQuery"]
  by (simp add: Between_def)

text \<open>
  C2. When \<open>http.Get\<close> has returned a response, \<open>GetMETAR\<close> fails with the error
  \<open>unexpected status code: N\<close> exactly when the status code \<open>N\<close> is below 200 or above
  299. In that case it returns no response value, and \<open>http.Get\<close> is the only thing it
  has done: the body is neither read nor decoded. With a status code from 200 to 299 the
  body is read, and the error, if there is one, is not that one.
\<close>

theorem C2_unexpected_status:
  assumes "buildEndpoint q = Some url" and "http_Get url = Inr resp"
  shows "((StatusCode resp < 200 \<or> StatusCode resp > 299) \<longrightarrow>
            GetMETAR http_Get xml_Unmarshal q
              = Some ((None, Some (ErrorsNew (''unexpected status code: ''
                                              @ fmt_d (StatusCode resp)))),
                      [HttpGet url]))
         \<and> (200 \<le> StatusCode resp \<and> StatusCode resp \<le> 299 \<longrightarrow>
            (\<exists>r e t. GetMETAR http_Get xml_Unmarshal q = Some ((r, e), t)
                     \<and> (\<forall>m. e \<noteq> Some (ErrorsNew m))
                     \<and> ReadAll \<in> set t))"
  using assms
  by (auto simp: GetMETAR_def split: prod.splits option.splits)

theorem C2_unexpected_status_witness:
  "GetMETAR (\<lambda>u. Inr \<lparr>StatusCode = 404, Body = (''Not Found'', None)\<rparr>)
       (\<lambda>b v. (v, None)) new_METARQuery
     = Some ((None, Some (ErrorsNew ''unexpected status code: 404'')),
             [HttpGet endpointMETAR])
   \<and> GetMETAR (\<lambda>u. Inr \<lparr>StatusCode = 200, Body = (''<response/>'', None)\<rparr>)
       (\<lambda>b v. (v, None)) new_METARQuery
     = Some ((Some new_METARResponse, None),
             [HttpGet endpointMETAR, ReadAll, Unmarshal ''<response/>'', BodyClose])"
proof -
  have d: "fmt_d 404 = ''404''"
    by (simp add: fmt_defs)
  have a: "GetMETAR (\<lambda>u. Inr \<lparr>StatusCode = 404, Body = (''Not Found'', None)\<rparr>)
       (\<lambda>b v. (v, None)) new_METARQuery
     = Some ((None, Some (ErrorsNew ''unexpected status code: 404'')),
             [HttpGet endpointMETAR])"
    using C2_unexpected_status [OF buildEndpoint_new,
        of "\<lambda>u. Inr \<lparr>StatusCode = 404, Body = (''Not Found'', None)\<rparr>"
           "\<lparr>StatusCode = 404, Body = (''Not Found'', None)\<rparr>" "\<lambda>b v. (v, None)"]
    by (simp add: d)
  have b: "GetMETAR (\<lambda>u. Inr \<lparr>StatusCode = 200, Body = (''<response/>'', None)\<rparr>)
       (\<lambda>b v. (v, None)) new_METARQuery
     = Some ((Some new_METARResponse, None),
             [HttpGet endpointMETAR, ReadAll, Unmarshal ''<response/>'', BodyClose])"
    by (simp add: GetMETAR_def buildEndpoint_new)
  show ?thesis
    using a b by simp
qed

text \<open>
  C3. For every radius that is not a NaN, \<open>RadialDistance\<close> stores a radius in the
  interval from 0 to 500 that is not 0: a radius of 0 or less becomes 1 (raised to 0 by
  the clamp, then mapped to 1), a radius of 500 or more becomes 500, any other radius is
  kept. A latitude and a longitude that are not a NaN are clamped to the intervals from
  -90 to 90 and from -180 to 180. A NaN argument is stored as it is.
  \<open>RadialDistance(0, lat, lon)\<close> and \<open>RadialDistance(-10, 45, 45)\<close> render the radius as
  \<open>1.000000\<close>.
\<close>

theorem C3_radial_clamp:
  "(radius \<noteq> NaN \<longrightarrow>
      (\<exists>r. radRadius (RadialDistance radius lat lon q) = Some r
           \<and> f32_between (Fin 0) (Fin 500) r \<and> \<not> f32_eq r (Fin 0)
           \<and> r = (if f32_le radius (Fin 0) then Fin 1
                  else if f32_le (Fin 500) radius then Fin 500 else radius)))
   \<and> (lat \<noteq> NaN \<longrightarrow>
      (\<exists>v. radLat (RadialDistance radius lat lon q) = Some v
           \<and> f32_between (Fin (- 90)) (Fin 90) v
           \<and> v = (if f32_le lat (Fin (- 90)) then Fin (- 90)
                  else if f32_le (Fin 90) lat then Fin 90 else lat)))
   \<and> (lon \<noteq> NaN \<longrightarrow>
      (\<exists>v. radLon (RadialDistance radius lat lon q) = Some v
           \<and> f32_between (Fin (- 180)) (Fin 180) v
           \<and> v = (if f32_le lon (Fin (- 180)) then Fin (- 180)
                  else if f32_le (Fin 180) lon then Fin 180 else lon)))
   \<and> radRadius (RadialDistance NaN lat lon q) = Some NaN
   \<and> radLat (RadialDistance radius NaN lon q) = Some NaN
   \<and> radLon (RadialDistance radius lat NaN q) = Some NaN
   \<and> buildEndpoint (RadialDistance (Fin 0) lat lon new_METARQuery)
       = Some (endpointMETAR @ ''&radialDistance=1.000000;''
               @ fmt_f (keepFloatInRange lon (Fin (- 180)) (Fin 180)) @ '',''
               @ fmt_f (keepFloatInRange lat (Fin (- 90)) (Fin 90)))
   \<and> buildEndpoint (RadialDistance (Fin (- 10)) (Fin 45) (Fin 45) new_METARQuery)
       = Some (endpointMETAR @ ''&radialDistance=1.000000;45.000000,45.000000'')"
proof -
  have rad: "radRadius (RadialDistance radius lat lon q)
               = Some (if f32_le radius (Fin 0) then Fin 1
                       else if f32_le (Fin 500) radius then Fin 500 else radius)"
    using radius_stored [of radius] by (simp add: RadialDistance_def Let_def)
  have c1: "radius \<noteq> NaN \<longrightarrow>
      (\<exists>r. radRadius (RadialDistance radius lat lon q) = Some r
           \<and> f32_between (Fin 0) (Fin 500) r \<and> \<not> f32_eq r (Fin 0)
           \<and> r = (if f32_le radius (Fin 0) then Fin 1
                  else if f32_le (Fin 500) radius then Fin 500 else radius))"
    using radius_between [of radius] radius_nonzero [of radius] by (simp add: rad)
  have la: "radLat (RadialDistance radius lat lon q)
              = Some (keepFloatInRange lat (Fin (- 90)) (Fin 90))"
    and lo: "radLon (RadialDistance radius lat lon q)
              = Some (keepFloatInRange lon (Fin (- 180)) (Fin 180))"
    by (simp_all add: RadialDistance_def Let_def)
  have c2: "lat \<noteq> NaN \<longrightarrow>
      (\<exists>v. radLat (RadialDistance radius lat lon q) = Some v
           \<and> f32_between (Fin (- 90)) (Fin 90) v
           \<and> v = (if f32_le lat (Fin (- 90)) then Fin (- 90)
                  else if f32_le (Fin 90) lat then Fin 90 else lat))"
    using keepFloatInRange_between [of lat "- 90" 90]
    by (simp add: la) (simp add: keepFloatInRange_def f32_ge_def)
  have c3: "lon \<noteq> NaN \<longrightarrow>
      (\<exists>v. radLon (RadialDistance radius lat lon q) = Some v
           \<and> f32_between (Fin (- 180)) (Fin 180) v
           \<and> v = (if f32_le lon (Fin (- 180)) then Fin (- 180)
                  else if f32_le (Fin 180) lon then Fin 180 else lon))"
    using keepFloatInRange_between [of lon "- 180" 180]
    by (simp add: lo) (simp add: keepFloatInRange_def f32_ge_def)
  have c4: "radRadius (RadialDistance NaN lat lon q) = Some NaN"
    "radLat (RadialDistance radius NaN lon q) = Some NaN"
    "radLon (RadialDistance radius lat NaN q) = Some NaN"
    by (simp_all add: RadialDistance_def Let_def f32_defs)
  have one: "fmt_f (Fin 1) = ''1.000000''" and ff: "fmt_f (Fin 45) = ''45.000000''"
    by (simp_all add: fmt_defs)
  have zero: "(let r = keepFloatInRange (Fin 0) (Fin 0) (Fin 500)
              in if f32_eq r (Fin 0) then Fin 1 else r) = Fin 1"
    and minus: "(let r = keepFloatInRange (Fin (- 10)) (Fin 0) (Fin 500)
              in if f32_eq r (Fin 0) then Fin 1 else r) = Fin 1"
    and k45: "keepFloatInRange (Fin 45) (Fin (- 90)) (Fin 90) = Fin 45"
      "keepFloatInRange (Fin 45) (Fin (- 180)) (Fin 180) = Fin 45"
    by (simp_all add: f32_defs)
  have c5: "buildEndpoint (RadialDistance (Fin 0) lat lon new_METARQuery)
       = Some (endpointMETAR @ ''&radialDistance=1.000000;''
               @ fmt_f (keepFloatInRange lon (Fin (- 180)) (Fin 180)) @ '',''
               @ fmt_f (keepFloatInRange lat (Fin (- 90)) (Fin 90)))"
    using zero
    by (simp add: buildEndpoint_eq nil_read_def seg_defs RadialDistance_def
        new_METARQuery_def Let_def one)
  have c6: "buildEndpoint (RadialDistance (Fin (- 10)) (Fin 45) (Fin 45) new_METARQuery)
       = Some (endpointMETAR @ ''&radialDistance=1.000000;45.000000,45.000000'')"
    using minus
    by (simp add: buildEndpoint_eq nil_read_def seg_defs RadialDistance_def
        new_METARQuery_def Let_def one ff k45)
  show ?thesis
    using c1 c2 c3 c4 c5 c6 by blast
qed

theorem C3_radial_clamp_witness:
  "Fin 700 \<noteq> NaN \<and> Fin (- 100) \<noteq> NaN \<and> Fin 10 \<noteq> NaN
   \<and> radRadius (RadialDistance (Fin 700) (Fin (- 100)) (Fin 10) new_METARQuery) = Some (Fin 500)
   \<and> radLat (RadialDistance (Fin 700) (Fin (- 100)) (Fin 10) new_METARQuery) = Some (Fin (- 90))
   \<and> radLon (RadialDistance (Fin 700) (Fin (- 100)) (Fin 10) new_METARQuery) = Some (Fin 10)
   \<and> f32_between (Fin 0) (Fin 500) (Fin 500)
   \<and> f32_between (Fin (- 90)) (Fin 90) (Fin (- 90))
   \<and> f32_between (Fin (- 180)) (Fin 180) (Fin 10)"
  using C3_radial_clamp [of "Fin 700" "Fin (- 100)" "Fin 10" new_METARQuery]
  by (simp add: f32_le_def f32_between_def)

text \<open>
  The claim as it was stated, for every input, fails on a NaN: both comparisons of
  \<open>keepFloatInRange\<close> are false on it, and so is \<open>radius == 0\<close>, so the radius stored
  and rendered is the NaN, which lies in no interval.
\<close>

theorem C3_radial_clamp_counterexample:
  "radRadius (RadialDistance NaN (Fin 45) (Fin 45) new_METARQuery) = Some NaN
   \<and> \<not> f32_between (Fin 0) (Fin 500) NaN
   \<and> buildEndpoint (RadialDistance NaN (Fin 45) (Fin 45) new_METARQuery)
       = Some (endpointMETAR @ ''&radialDistance=NaN;45.000000,45.000000'')"
  by (simp add: buildEndpoint_eq nil_read_def seg_defs RadialDistance_def new_METARQuery_def
      f32_defs fmt_defs)

text \<open>
  C4. \<open>HoursBeforeNow\<close> stores the absolute value of its argument, so a call with \<open>-h\<close>
  and a call with \<open>h\<close> on the same query give the same query and the same rendered
  endpoint (for every \<open>h\<close>, the positive ones among them); on a query built by setter
  calls both renderings are an endpoint.
\<close>

theorem C4_hours_sign:
  "HoursBeforeNow (f32_neg h) q = HoursBeforeNow h q
   \<and> hoursBeforeNow (HoursBeforeNow h q) = Some (f32_abs h)
   \<and> buildEndpoint (HoursBeforeNow (f32_neg h) q) = buildEndpoint (HoursBeforeNow h q)
   \<and> (\<exists>url. buildEndpoint (HoursBeforeNow h (built cs)) = Some url
             \<and> buildEndpoint (HoursBeforeNow (f32_neg h) (built cs)) = Some url)"
proof -
  have same: "HoursBeforeNow (f32_neg h) q' = HoursBeforeNow h q'" for q'
    by (simp add: HoursBeforeNow_def f32_abs_neg)
  have "paired (HoursBeforeNow h (built cs))"
    by (rule paired_HoursBeforeNow [OF paired_built])
  then have "\<exists>url. buildEndpoint (HoursBeforeNow h (built cs)) = Some url"
    by (simp add: buildEndpoint_paired)
  then show ?thesis
    by (simp add: same) (simp add: HoursBeforeNow_def)
qed

theorem C4_hours_sign_witness:
  "buildEndpoint (HoursBeforeNow (Fin (- 3)) new_METARQuery)
     = Some (endpointMETAR @ ''&hoursBeforeNow=3.000000'')
   \<and> buildEndpoint (HoursBeforeNow (Fin 3) new_METARQuery)
     = Some (endpointMETAR @ ''&hoursBeforeNow=3.000000'')"
proof -
  have "buildEndpoint (HoursBeforeNow (Fin 3) new_METARQuery)
          = Some (endpointMETAR @ ''&hoursBeforeNow=3.000000'')"
    by (simp add: buildEndpoint_eq nil_read_def seg_defs HoursBeforeNow_def
        new_METARQuery_def f32_defs fmt_defs)
  moreover have "f32_neg (Fin 3) = Fin (- 3)"
    by (simp add: f32_neg_def)
  ultimately show ?thesis
    using C4_hours_sign [of "Fin 3" new_METARQuery "[]"] by simp
qed

text \<open>
  C5. \<open>InRectangle\<close> clamps each of its four coordinates on its own: a latitude that is
  not a NaN is stored in the interval from -90 to 90, a longitude that is not a NaN in
  the interval from -180 to 180, a value at or below the minimum as the minimum, a value
  at or above the maximum as the maximum, any other value unchanged. A NaN coordinate is
  stored as it is. \<open>InRectangle(-200, -300, 200, 300)\<close> stores -90, -180, 90 and 180 and
  renders them as \<open>minLat=-90.000000\<close>, \<open>minLon=-180.000000\<close>, \<open>maxLat=90.000000\<close> and
  \<open>maxLon=180.000000\<close>.
\<close>

theorem C5_rectangle_clamp:
  "(minLat \<noteq> NaN \<longrightarrow>
      (\<exists>v. rectMinLat (InRectangle minLat minLon maxLat maxLon q) = Some v
           \<and> f32_between (Fin (- 90)) (Fin 90) v
           \<and> v = (if f32_le minLat (Fin (- 90)) then Fin (- 90)
                  else if f32_le (Fin 90) minLat then Fin 90 else minLat)))
   \<and> (minLon \<noteq> NaN \<longrightarrow>
      (\<exists>v. rectMinLon (InRectangle minLat minLon maxLat maxLon q) = Some v
           \<and> f32_between (Fin (- 180)) (Fin 180) v
           \<and> v = (if f32_le minLon (Fin (- 180)) then Fin (- 180)
                  else if f32_le (Fin 180) minLon then Fin 180 else minLon)))
   \<and> (maxLat \<noteq> NaN \<longrightarrow>
      (\<exists>v. rectMaxLat (InRectangle minLat minLon maxLat maxLon q) = Some v
           \<and> f32_between (Fin (- 90)) (Fin 90) v
           \<and> v = (if f32_le maxLat (Fin (- 90)) then Fin (- 90)
                  else if f32_le (Fin 90) maxLat then Fin 90 else maxLat)))
   \<and> (maxLon \<noteq> NaN \<longrightarrow>
      (\<exists>v. rectMaxLon (InRectangle minLat minLon maxLat maxLon q) = Some v
           \<and> f32_between (Fin (- 180)) (Fin 180) v
           \<and> v = (if f32_le maxLon (Fin (- 180)) then Fin (- 180)
                  else if f32_le (Fin 180) maxLon then Fin 180 else maxLon)))
   \<and> rectMinLat (InRectangle NaN minLon maxLat maxLon q) = Some NaN
   \<and> rectMinLon (InRectangle minLat NaN maxLat maxLon q) = Some NaN
   \<and> rectMaxLat (InRectangle minLat minLon NaN maxLon q) = Some NaN
   \<and> rectMaxLon (InRectangle minLat minLon maxLat NaN q) = Some NaN
   \<and> rectMinLat (InRectangle (Fin (- 200)) (Fin (- 300)) (Fin 200) (Fin 300) q)
       = Some (Fin (- 90))
   \<and> rectMinLon (InRectangle (Fin (- 200)) (Fin (- 300)) (Fin 200) (Fin 300) q)
       = Some (Fin (- 180))
   \<and> rectMaxLat (InRectangle (Fin (- 200)) (Fin (- 300)) (Fin 200) (Fin 300) q)
       = Some (Fin 90)
   \<and> rectMaxLon (InRectangle (Fin (- 200)) (Fin (- 300)) (Fin 200) (Fin 300) q)
       = Some (Fin 180)
   \<and> buildEndpoint
         (InRectangle (Fin (- 200)) (Fin (- 300)) (Fin 200) (Fin 300) new_METARQuery)
       = Some (endpointMETAR
               @ ''&minLat=-90.000000&minLon=-180.000000&maxLat=90.000000&maxLon=180.000000'')"
proof -
  let ?q = "InRectangle minLat minLon maxLat maxLon q"
  have st: "rectMinLat ?q = Some (keepFloatInRange minLat (Fin (- 90)) (Fin 90))"
    "rectMinLon ?q = Some (keepFloatInRange minLon (Fin (- 180)) (Fin 180))"
    "rectMaxLat ?q = Some (keepFloatInRange maxLat (Fin (- 90)) (Fin 90))"
    "rectMaxLon ?q = Some (keepFloatInRange maxLon (Fin (- 180)) (Fin 180))"
    by (simp_all add: InRectangle_def Let_def)
  have c1: "minLat \<noteq> NaN \<longrightarrow>
      (\<exists>v. rectMinLat ?q = Some v
           \<and> f32_between (Fin (- 90)) (Fin 90) v
           \<and> v = (if f32_le minLat (Fin (- 90)) then Fin (- 90)
                  else if f32_le (Fin 90) minLat then Fin 90 else minLat))"
    by (rule impI, rule clamp_result [OF _ _ st(1)]) simp_all
  have c2: "minLon \<noteq> NaN \<longrightarrow>
      (\<exists>v. rectMinLon ?q = Some v
           \<and> f32_between (Fin (- 180)) (Fin 180) v
           \<and> v = (if f32_le minLon (Fin (- 180)) then Fin (- 180)
                  else if f32_le (Fin 180) minLon then Fin 180 else minLon))"
    by (rule impI, rule clamp_result [OF _ _ st(2)]) simp_all
  have c3: "maxLat \<noteq> NaN \<longrightarrow>
      (\<exists>v. rectMaxLat ?q = Some v
           \<and> f32_between (Fin (- 90)) (Fin 90) v
           \<and> v = (if f32_le maxLat (Fin (- 90)) then Fin (- 90)
                  else if f32_le (Fin 90) maxLat then Fin 90 else maxLat))"
    by (rule impI, rule clamp_result [OF _ _ st(3)]) simp_all
  have c4: "maxLon \<noteq> NaN \<longrightarrow>
      (\<exists>v. rectMaxLon ?q = Some v
           \<and> f32_between (Fin (- 180)) (Fin 180) v
           \<and> v = (if f32_le maxLon (Fin (- 180)) then Fin (- 180)
                  else if f32_le (Fin 180) maxLon then Fin 180 else maxLon))"
    by (rule impI, rule clamp_result [OF _ _ st(4)]) simp_all
  have c5: "rectMinLat (InRectangle NaN minLon maxLat maxLon q) = Some NaN"
    "rectMinLon (InRectangle minLat NaN maxLat maxLon q) = Some NaN"
    "rectMaxLat (InRectangle minLat minLon NaN maxLon q) = Some NaN"
    "rectMaxLon (InRectangle minLat minLon maxLat NaN q) = Some NaN"
    by (simp_all add: InRectangle_def Let_def keepFloatInRange_NaN)
  have k: "keepFloatInRange (Fin (- 200)) (Fin (- 90)) (Fin 90) = Fin (- 90)"
    "keepFloatInRange (Fin (- 300)) (Fin (- 180)) (Fin 180) = Fin (- 180)"
    "keepFloatInRange (Fin 200) (Fin (- 90)) (Fin 90) = Fin 90"
    "keepFloatInRange (Fin 300) (Fin (- 180)) (Fin 180) = Fin 180"
    by (simp_all add: f32_defs)
  have c6: "rectMinLat (InRectangle (Fin (- 200)) (Fin (- 300)) (Fin 200) (Fin 300) q)
       = Some (Fin (- 90))"
    "rectMinLon (InRectangle (Fin (- 200)) (Fin (- 300)) (Fin 200) (Fin 300) q)
       = Some (Fin (- 180))"
    "rectMaxLat (InRectangle (Fin (- 200)) (Fin (- 300)) (Fin 200) (Fin 300) q)
       = Some (Fin 90)"
    "rectMaxLon (InRectangle (Fin (- 200)) (Fin (- 300)) (Fin 200) (Fin 300) q)
       = Some (Fin 180)"
    by (simp_all add: InRectangle_def Let_def k)
  have f: "fmt_f (Fin (- 90)) = ''-90.000000''" "fmt_f (Fin (- 180)) = ''-180.000000''"
    "fmt_f (Fin 90) = ''90.000000''" "fmt_f (Fin 180) = ''180.000000''"
    by (simp_all add: fmt_defs)
  have c7: "buildEndpoint
         (InRectangle (Fin (- 200)) (Fin (- 300)) (Fin 200) (Fin 300) new_METARQuery)
       = Some (endpointMETAR
               @ ''&minLat=-90.000000&minLon=-180.000000&maxLat=90.000000&maxLon=180.000000'')"
    by (simp add: buildEndpoint_eq nil_read_def seg_defs InRectangle_def
        new_METARQuery_def Let_def k f)
  show ?thesis
    using c1 c2 c3 c4 c5 c6 c7 by blast
qed

theorem C5_rectangle_clamp_witness:
  "Fin 100 \<noteq> NaN \<and> Fin (- 10) \<noteq> NaN \<and> PosInf \<noteq> NaN \<and> NegInf \<noteq> NaN
   \<and> rectMinLat (InRectangle (Fin 100) (Fin (- 10)) PosInf NegInf new_METARQuery)
       = Some (Fin 90)
   \<and> rectMinLon (InRectangle (Fin 100) (Fin (- 10)) PosInf NegInf new_METARQuery)
       = Some (Fin (- 10))
   \<and> rectMaxLat (InRectangle (Fin 100) (Fin (- 10)) PosInf NegInf new_METARQuery)
       = Some (Fin 90)
   \<and> rectMaxLon (InRectangle (Fin 100) (Fin (- 10)) PosInf NegInf new_METARQuery)
       = Some (Fin (- 180))
   \<and> f32_between (Fin (- 90)) (Fin 90) (Fin 90)
   \<and> f32_between (Fin (- 180)) (Fin 180) (Fin (- 10))
   \<and> f32_between (Fin (- 180)) (Fin 180) (Fin (- 180))"
  using C5_rectangle_clamp [of "Fin 100" "Fin (- 10)" PosInf NegInf new_METARQuery]
  by (simp add: f32_le_def f32_between_def)

text \<open>
  The claim as it was stated, for every rectangle, fails on a NaN coordinate: neither
  comparison of \<open>keepFloatInRange\<close> holds for it, so the NaN is stored and rendered.
\<close>

theorem C5_rectangle_clamp_counterexample:
  "rectMinLat (InRectangle NaN (Fin 0) (Fin 0) (Fin 0) new_METARQuery) = Some NaN
   \<and> \<not> f32_between (Fin (- 90)) (Fin 90) NaN
   \<and> buildEndpoint (InRectangle NaN (Fin 0) (Fin 0) (Fin 0) new_METARQuery)
       = Some (endpointMETAR
               @ ''&minLat=NaN&minLon=0.000000&maxLat=0.000000&maxLon=0.000000'')"
  by (simp add: buildEndpoint_eq nil_read_def seg_defs InRectangle_def new_METARQuery_def
      f32_defs fmt_defs)



text \<open>
  C7. A query whose radial filter is set renders it as one parameter
  \<open>&radialDistance=radius;lon,lat\<close>, added after the parameters of the other groups and
  before the fields: a semicolon after the radius, then the longitude, a comma, the
  latitude. \<open>RadialDistance\<close> takes the latitude before the longitude and stores each
  in its own field, so the order of the two is swapped in the text.
\<close>

theorem C7_radial_layout:
  assumes "radRadius q = Some r" and "radLat q = Some la" and "radLon q = Some lo"
    and "buildEndpoint (q\<lparr>radRadius := None, fields' := []\<rparr>) = Some pre"
  shows "buildEndpoint q =
           Some (pre @ ''&radialDistance='' @ fmt_f r @ '';'' @ fmt_f lo @ '','' @ fmt_f la
                 @ (if fields' q = [] then [] else ''&fields='' @ Join (fields' q) '',''))
         \<and> radLat (RadialDistance radius lat lon q') = Some (keepFloatInRange lat (Fin (- 90)) (Fin 90))
         \<and> radLon (RadialDistance radius lat lon q') = Some (keepFloatInRange lon (Fin (- 180)) (Fin 180))"
proof -
  let ?q0 = "q\<lparr>radRadius := None, fields' := []\<rparr>"
  have segs: "seg_station ?q0 = seg_station q" "seg_time ?q0 = seg_time q"
    "seg_hours ?q0 = seg_hours q" "seg_recent ?q0 = seg_recent q"
    "seg_each ?q0 = seg_each q" "seg_rect ?q0 = seg_rect q"
    "seg_radial ?q0 = []" "seg_fields ?q0 = []"
    by (simp_all add: seg_defs split: option.splits)
  have ok0: "\<not> nil_read ?q0"
    using assms(4) by (simp add: buildEndpoint_eq split: if_splits)
  then have ok: "\<not> nil_read q"
    using assms(1-3) by (simp add: nil_read_def)
  have pre: "pre = endpointMETAR @ seg_station q @ seg_time q @ seg_hours q @ seg_recent q
                   @ seg_each q @ seg_rect q"
    using assms(4) ok0 by (simp add: buildEndpoint_eq segs)
  have rad: "seg_radial q = ''&radialDistance='' @ fmt_f r @ '';'' @ fmt_f lo @ '','' @ fmt_f la"
    using assms(1-3) by (simp add: seg_radial_def)
  have "buildEndpoint q =
          Some (pre @ ''&radialDistance='' @ fmt_f r @ '';'' @ fmt_f lo @ '','' @ fmt_f la
                @ (if fields' q = [] then [] else ''&fields='' @ Join (fields' q) '',''))"
    using ok by (simp add: buildEndpoint_eq pre rad seg_fields_def)
  then show ?thesis
    by (simp add: RadialDistance_def Let_def)
qed

theorem C7_radial_layout_witness:
  "buildEndpoint (RadialDistance (Fin 10) (Fin 20) (Fin 30) new_METARQuery)
     = Some (endpointMETAR @ ''&radialDistance=10.000000;30.000000,20.000000'')"
proof -
  let ?q = "RadialDistance (Fin 10) (Fin 20) (Fin 30) new_METARQuery"
  have 1: "radRadius ?q = Some (Fin 10)" and 2: "radLat ?q = Some (Fin 20)"
    and 3: "radLon ?q = Some (Fin 30)" and 5: "fields' ?q = []"
    by (simp_all add: RadialDistance_def new_METARQuery_def f32_defs)
  have 4: "buildEndpoint (?q\<lparr>radRadius := None, fields' := []\<rparr>) = Some endpointMETAR"
    by (simp add: buildEndpoint_eq nil_read_def seg_defs RadialDistance_def
        new_METARQuery_def Let_def)
  have f: "fmt_f (Fin 10) = ''10.000000''" "fmt_f (Fin 20) = ''20.000000''"
    "fmt_f (Fin 30) = ''30.000000''"
    by (simp_all add: fmt_defs)
  show ?thesis
    using C7_radial_layout [OF 1 2 3 4, of "Fin 10" "Fin 20" "Fin 30" new_METARQuery]
    by (simp add: 5 f)
qed

text \<open>
  C8. \<open>Fields\<close> replaces the list of fields, whatever it was before. A query whose
  fields are \<open>raw_text\<close> and \<open>station_id\<close> renders as the rendering of its other
  parameters followed by the one segment \<open>&fields=raw_text,station_id\<close>, the names joined
  by a comma and nothing after the last; on a fresh query the text
  \<open>fields=raw_text,station_id\<close> occurs exactly once in the endpoint.
\<close>

theorem C8_fields_replace:
  "fields' (Fields vs q) = vs
   \<and> Fields vs (Fields ws q) = Fields vs q
   \<and> (buildEndpoint (q\<lparr>fields' := []\<rparr>) = Some pre \<longrightarrow>
        buildEndpoint (Fields [''raw_text'', ''station_id''] q)
          = Some (pre @ ''&fields=raw_text,station_id''))
   \<and> buildEndpoint (Fields [''raw_text'', ''station_id''] new_METARQuery)
          = Some (endpointMETAR @ ''&fields=raw_text,station_id'')
   \<and> occurrences ''fields=raw_text,station_id''
          (endpointMETAR @ ''&fields=raw_text,station_id'') = 1"
proof -
  let ?q0 = "q\<lparr>fields' := []\<rparr>" and ?q1 = "Fields [''raw_text'', ''station_id''] q"
  have segs: "seg_station ?q1 = seg_station ?q0" "seg_time ?q1 = seg_time ?q0"
    "seg_hours ?q1 = seg_hours ?q0" "seg_recent ?q1 = seg_recent ?q0"
    "seg_each ?q1 = seg_each ?q0" "seg_rect ?q1 = seg_rect ?q0"
    "seg_radial ?q1 = seg_radial ?q0" "seg_fields ?q0 = []"
    "seg_fields ?q1 = ''&fields=raw_text,station_id''"
    by (simp_all add: seg_defs Fields_def split: option.splits)
  have nil: "nil_read ?q1 = nil_read ?q0"
    by (simp add: nil_read_def Fields_def)
  have general: "buildEndpoint ?q0 = Some pre \<longrightarrow>
        buildEndpoint ?q1 = Some (pre @ ''&fields=raw_text,station_id'')"
    by (auto simp: buildEndpoint_eq segs nil split: if_splits)
  have fresh: "buildEndpoint (Fields [''raw_text'', ''station_id''] new_METARQuery)
          = Some (endpointMETAR @ ''&fields=raw_text,station_id'')"
    by (simp add: buildEndpoint_eq nil_read_def seg_defs Fields_def new_METARQuery_def)
  have once: "occurrences ''fields=raw_text,station_id''
          (endpointMETAR @ ''&fields=raw_text,station_id'') = 1"
    by (simp add: endpointMETAR_def)
  show ?thesis
    using general fresh once by (simp add: Fields_def)
qed

theorem C8_fields_replace_witness:
  "buildEndpoint (Fields [''raw_text'', ''station_id'']
       (Fields [''temp_c''] (Station ''EDDF'' new_METARQuery)))
     = Some (endpointMETAR @ ''&stationString=EDDF&fields=raw_text,station_id'')"
proof -
  let ?q = "Fields [''temp_c''] (Station ''EDDF'' new_METARQuery)"
  have "buildEndpoint (?q\<lparr>fields' := []\<rparr>) = Some (endpointMETAR @ ''&stationString=EDDF'')"
    by (simp add: buildEndpoint_eq nil_read_def seg_defs Fields_def Station_def
        new_METARQuery_def)
  then show ?thesis
    using C8_fields_replace [of "[''temp_c'']" ?q "[]" "endpointMETAR @ ''&stationString=EDDF''"]
    by simp
qed

text \<open>
  C9. When the status code is from 200 to 299 and the body is read, but the decoder
  returns an error, \<open>GetMETAR\<close> returns that error and no response value, dropping what
  the decoder had filled in. On every path that returns an error the response is nil.
\<close>

theorem C9_decode_error:
  assumes "buildEndpoint q = Some url" and "http_Get url = Inr resp"
    and "200 \<le> StatusCode resp" and "StatusCode resp \<le> 299"
    and "Body resp = (body, None)"
    and "xml_Unmarshal body new_METARResponse = (partial, Some err)"
  shows "GetMETAR http_Get xml_Unmarshal q
           = Some ((None, Some (DecodeError err)),
                   [HttpGet url, ReadAll, Unmarshal body, BodyClose])
         \<and> (\<forall>g x q' r e t. GetMETAR g x q' = Some ((r, Some e), t) \<longrightarrow> r = None)"
proof -
  have "GetMETAR http_Get xml_Unmarshal q
           = Some ((None, Some (DecodeError err)),
                   [HttpGet url, ReadAll, Unmarshal body, BodyClose])"
    using assms by (simp add: GetMETAR_def)
  moreover have "r = None" if "GetMETAR g x q' = Some ((r, Some e), t)" for g x q' r e t
    using that
    by (auto simp: GetMETAR_def split: option.splits sum.splits if_splits prod.splits)
  ultimately show ?thesis
    by blast
qed

theorem C9_decode_error_witness:
  "GetMETAR (\<lambda>u. Inr \<lparr>StatusCode = 200, Body = (''not xml'', None)\<rparr>)
       (\<lambda>b v. (v\<lparr>Errors := [''half'']\<rparr>, Some ''EOF'')) new_METARQuery
     = Some ((None, Some (DecodeError ''EOF'')),
             [HttpGet endpointMETAR, ReadAll, Unmarshal ''not xml'', BodyClose])"
  using C9_decode_error [OF buildEndpoint_new,
      of "\<lambda>u. Inr \<lparr>StatusCode = 200, Body = (''not xml'', None)\<rparr>"
         "\<lparr>StatusCode = 200, Body = (''not xml'', None)\<rparr>" "''not xml''"
         "\<lambda>b v. (v\<lparr>Errors := [''half'']\<rparr>, Some ''EOF'')"
         "new_METARResponse\<lparr>Errors := [''half'']\<rparr>" "''EOF''"]
  by simp

text \<open>
  C10. In every query built by a sequence of setter calls the pointers of a group are all
  nil or all set, so \<open>buildEndpoint\<close>, which tests one pointer of a group and reads the
  others, never reads through a nil pointer: it returns an endpoint.
\<close>

theorem C10_no_nil_read:
  "paired (built cs) \<and> \<not> nil_read (built cs) \<and> buildEndpoint (built cs) \<noteq> None"
  using paired_built [of cs] by (simp add: buildEndpoint_paired paired_not_nil_read)

theorem C10_no_nil_read_witness:
  "buildEndpoint (built [CallBetween (Time 1) (Time 2),
                         CallInRectangle (Fin 1) (Fin 2) (Fin 3) (Fin 4),
                         CallRadialDistance (Fin 5) (Fin 6) (Fin 7),
                         CallHoursBeforeNow (Fin 2)]) \<noteq> None"
  using C10_no_nil_read [of "[CallBetween (Time 1) (Time 2),
                         CallInRectangle (Fin 1) (Fin 2) (Fin 3) (Fin 4),
                         CallRadialDistance (Fin 5) (Fin 6) (Fin 7),
                         CallHoursBeforeNow (Fin 2)]"]
  by simp

end
